theory Spec2Isabelle
  imports Complex_Main "HOL-Library.Log_Nat"
begin

section \<open>JavaScript values\<close>

text \<open>
  A JavaScript number is a binary64 value: finite, NaN, or one of the two infinities.
  A finite value is kept as the rational it denotes (every finite binary64 value is
  one). \<open>+0\<close> and \<open>-0\<close> are one value, as they are for the keys of a Map.
\<close>

datatype jsnum = Num rat | NaN | PosInfinity | NegInfinity

text \<open>
  The primitive values. \<open>Concat a b\<close> is the string that \<open>a + b\<close> yields when one operand
  is a string; the rendering of numbers as text is not modelled, so the concatenation is
  kept as a term.
\<close>

datatype jsval =
    Undefined
  | Null
  | Boolean bool
  | Number jsnum
  | Str string
  | Concat jsval jsval

text \<open>
  The exact sum and difference of two numbers, before any rounding. On the infinities and
  NaN they are what \<open>+\<close> and \<open>-\<close> give.
\<close>

fun js_add :: "jsnum \<Rightarrow> jsnum \<Rightarrow> jsnum" where
  "js_add (Num a) (Num b) = Num (a + b)"
| "js_add NaN _ = NaN"
| "js_add _ NaN = NaN"
| "js_add PosInfinity NegInfinity = NaN"
| "js_add NegInfinity PosInfinity = NaN"
| "js_add PosInfinity _ = PosInfinity"
| "js_add _ PosInfinity = PosInfinity"
| "js_add NegInfinity _ = NegInfinity"
| "js_add _ NegInfinity = NegInfinity"

fun js_sub :: "jsnum \<Rightarrow> jsnum \<Rightarrow> jsnum" where
  "js_sub (Num a) (Num b) = Num (a - b)"
| "js_sub NaN _ = NaN"
| "js_sub _ NaN = NaN"
| "js_sub PosInfinity PosInfinity = NaN"
| "js_sub NegInfinity NegInfinity = NaN"
| "js_sub PosInfinity _ = PosInfinity"
| "js_sub _ NegInfinity = PosInfinity"
| "js_sub NegInfinity _ = NegInfinity"
| "js_sub _ PosInfinity = NegInfinity"

text \<open>
  Rounding to binary64: a significand of 53 bits, the least bit worth at least
  \<open>2^-1074\<close>, to the nearest value with ties to the even significand, and to an infinity
  from \<open>2^1024 - 2^970\<close> on. \<open>floor_log2 x\<close> is the exponent of the leading bit of a
  positive \<open>x\<close>, and \<open>ulp x\<close> what the least bit of the significand is worth at \<open>x\<close>.
\<close>

definition round_ties_even :: "rat \<Rightarrow> int" where
  "round_ties_even x =
     (let f = \<lfloor>x\<rfloor>; d = x - of_int f
      in if d < 1 / 2 then f else if 1 / 2 < d then f + 1 else if even f then f else f + 1)"

definition floor_log2 :: "rat \<Rightarrow> int" where
  "floor_log2 x = (if 1 \<le> x then bitlen \<lfloor>x\<rfloor> - 1 else - bitlen (\<lceil>1 / x\<rceil> - 1))"

definition ulp :: "rat \<Rightarrow> rat" where
  "ulp x = 2 powi (max (floor_log2 \<bar>x\<bar> - 52) (- 1074))"

definition round_binary64 :: "rat \<Rightarrow> jsnum" where
  "round_binary64 x =
     (if x = 0 then Num 0
      else
        let r = of_int (round_ties_even (x / ulp x)) * ulp x
        in if 2 ^ 1024 \<le> \<bar>r\<bar> then (if 0 < x then PosInfinity else NegInfinity) else Num r)"

text \<open>\<open>a + b\<close> on numbers: the exact sum, rounded.\<close>

definition binary64_add :: "jsnum \<Rightarrow> jsnum \<Rightarrow> jsnum" where
  "binary64_add a b = (case js_add a b of Num r \<Rightarrow> round_binary64 r | v \<Rightarrow> v)"

text \<open>
  \<open>a === b\<close>, \<open>a < b\<close> and \<open>a > b\<close> on numbers: every comparison with NaN is false.
\<close>

fun js_strict_eq :: "jsnum \<Rightarrow> jsnum \<Rightarrow> bool" where
  "js_strict_eq (Num a) (Num b) = (a = b)"
| "js_strict_eq PosInfinity PosInfinity = True"
| "js_strict_eq NegInfinity NegInfinity = True"
| "js_strict_eq _ _ = False"

fun js_lt :: "jsnum \<Rightarrow> jsnum \<Rightarrow> bool" where
  "js_lt (Num a) (Num b) = (a < b)"
| "js_lt NegInfinity (Num b) = True"
| "js_lt NegInfinity PosInfinity = True"
| "js_lt (Num a) PosInfinity = True"
| "js_lt _ _ = False"

fun js_gt :: "jsnum \<Rightarrow> jsnum \<Rightarrow> bool" where
  "js_gt (Num a) (Num b) = (a > b)"
| "js_gt (Num a) NegInfinity = True"
| "js_gt PosInfinity NegInfinity = True"
| "js_gt PosInfinity (Num b) = True"
| "js_gt _ _ = False"

text \<open>
  \<open>Number.isInteger\<close>: false for every value that is not a number, for NaN and for the
  infinities.
\<close>

fun isInteger :: "jsval \<Rightarrow> bool" where
  "isInteger (Number (Num q)) = (of_int \<lfloor>q\<rfloor> = q)"
| "isInteger _ = False"

text \<open>
  \<open>a + b\<close> on values. With no string among the operands both are converted with ToNumber
  (undefined to NaN, null to 0, false and true to 0 and 1) and added; with a string among
  them the result is the concatenation of the two as text.
\<close>

fun numeric :: "jsval \<Rightarrow> jsnum option" where
  "numeric Undefined = Some NaN"
| "numeric Null = Some (Num 0)"
| "numeric (Boolean b) = Some (Num (if b then 1 else 0))"
| "numeric (Number n) = Some n"
| "numeric (Str s) = None"
| "numeric (Concat a b) = None"

definition js_plus :: "jsval \<Rightarrow> jsval \<Rightarrow> jsval" where
  "js_plus a b =
     (case (numeric a, numeric b) of
        (Some x, Some y) \<Rightarrow> Number (binary64_add x y)
      | _ \<Rightarrow> Concat a b)"

text \<open>
  Truthiness, as the condition of \<open>c ? x : y\<close> reads it: undefined, null, false, 0, NaN and
  the empty string are falsy. Every value that is not a string renders as non-empty text.
\<close>

fun empty_text :: "jsval \<Rightarrow> bool" where
  "empty_text (Str s) = (s = [])"
| "empty_text (Concat a b) = (empty_text a \<and> empty_text b)"
| "empty_text _ = False"

fun truthy :: "jsval \<Rightarrow> bool" where
  "truthy Undefined = False"
| "truthy Null = False"
| "truthy (Boolean b) = b"
| "truthy (Number (Num q)) = (q \<noteq> 0)"
| "truthy (Number NaN) = False"
| "truthy (Number PosInfinity) = True"
| "truthy (Number NegInfinity) = True"
| "truthy v = (\<not> empty_text v)"

section \<open>The built-in Map\<close>

text \<open>
  A Map keeps its entries in insertion order, one per key; keys are compared with
  SameValueZero, which on \<open>jsnum\<close> is equality (NaN is the same key as NaN). Every key
  a TerrainMap stores is a number: \<open>set\<close> stores only what passed \<open>Number.isInteger\<close>,
  and \<open>add\<close> stores the private counter.
\<close>

fun Map_set :: "jsnum \<Rightarrow> 'a \<Rightarrow> (jsnum \<times> 'a) list \<Rightarrow> (jsnum \<times> 'a) list" where
  "Map_set k v [] = [(k, v)]"
| "Map_set k v ((k', v') # m) = (if k' = k then (k, v) # m else (k', v') # Map_set k v m)"

definition Map_keys :: "(jsnum \<times> 'a) list \<Rightarrow> jsnum list" where
  "Map_keys m = map fst m"

definition Map_has :: "jsval \<Rightarrow> (jsnum \<times> 'a) list \<Rightarrow> bool" where
  "Map_has v m = (case v of Number k \<Rightarrow> k \<in> set (Map_keys m) | _ \<Rightarrow> False)"

definition Map_delete :: "jsnum \<Rightarrow> (jsnum \<times> 'a) list \<Rightarrow> (jsnum \<times> 'a) list" where
  "Map_delete k m = filter (\<lambda>e. fst e \<noteq> k) m"

definition Map_size :: "(jsnum \<times> 'a) list \<Rightarrow> jsnum" where
  "Map_size m = Num (of_nat (length m))"

section \<open>TerrainMap\<close>

record 'a TerrainMap =
  entries :: "(jsnum \<times> 'a) list"
  nextId :: jsnum

definition MAX_TERRAINS :: jsnum where
  "MAX_TERRAINS = Num (2 ^ 5 - 1)"

definition TerrainMap_new :: "'a TerrainMap" where
  "TerrainMap_new = \<lparr>entries = [], nextId = Num 1\<rparr>"

datatype message =
    IdAlreadyPresent
  | IdInvalid jsval
  | IdExceedsMaximum jsnum jsnum

datatype console_call = console_error message | console_warn message

text \<open>
  \<open>keys.sort((a, b) => a - b)\<close>. The sort reads the sign of the comparator's result, and a
  result of NaN counts as 0; \<open>compareFn\<close> gives the difference, or 1 and -1 for the
  infinities. The sort is modelled as a stable insertion sort; on keys without NaN the
  comparator is a total order and every sorting algorithm gives this result, with NaN
  among the keys ECMAScript leaves the order to the implementation.
\<close>

definition compareFn :: "jsnum \<Rightarrow> jsnum \<Rightarrow> rat" where
  "compareFn a b =
     (case js_sub a b of Num d \<Rightarrow> d | NaN \<Rightarrow> 0 | PosInfinity \<Rightarrow> 1 | NegInfinity \<Rightarrow> - 1)"

fun insert_key :: "jsnum \<Rightarrow> jsnum list \<Rightarrow> jsnum list" where
  "insert_key x [] = [x]"
| "insert_key x (y # ys) = (if compareFn x y \<le> 0 then x # y # ys else y # insert_key x ys)"

fun sort_keys :: "jsnum list \<Rightarrow> jsnum list" where
  "sort_keys [] = []"
| "sort_keys (x # xs) = insert_key x (sort_keys xs)"

text \<open>
  \<open>keys.find((k, idx) => keys[idx + 1] !== k + 1)\<close>: the first key whose successor in the
  array is not the key plus one. Past the end \<open>keys[idx + 1]\<close> is undefined, which is never
  strictly equal to a number, so the last key always qualifies; only an empty array gives
  undefined (\<open>None\<close>).
\<close>

fun find_lastConsecutiveKey :: "jsnum list \<Rightarrow> jsnum option" where
  "find_lastConsecutiveKey [] = None"
| "find_lastConsecutiveKey [k] = Some k"
| "find_lastConsecutiveKey (k # k' # ks) =
     (if \<not> js_strict_eq k' (js_add k (Num 1)) then Some k
      else find_lastConsecutiveKey (k' # ks))"

text \<open>
  \<open>#findNextId\<close>. In \<open>lastConsecutiveKey + 1 ?? 1\<close> the sum binds tighter than \<open>??\<close>:
  \<open>undefined + 1\<close> is NaN, which is not nullish, so the default 1 is never taken.
  The counter and the keys are integers, and the map's sums and differences on them are
  taken exact: within \<open>2^53\<close> in magnitude the rounded sum of two integers is the exact
  one (lemma \<open>binary64_add_of_int\<close> below), and a map with that many entries is out of
  any engine's reach.
\<close>

definition findNextId :: "'a TerrainMap \<Rightarrow> jsnum" where
  "findNextId s =
     (if js_strict_eq (Map_size (entries s)) (js_sub (nextId s) (Num 1))
      then js_add (nextId s) (Num 1)
      else
        let keys = sort_keys (Map_keys (entries s));
            lastConsecutiveKey = find_lastConsecutiveKey keys
        in (case lastConsecutiveKey of
              None \<Rightarrow> NaN
            | Some k \<Rightarrow> js_add k (Num 1)))"

definition warn_exceeds :: "jsnum \<Rightarrow> console_call list" where
  "warn_exceeds k =
     (if js_gt k MAX_TERRAINS then [console_warn (IdExceedsMaximum k MAX_TERRAINS)] else [])"

text \<open>\<open>super.set(id, terrain); this.#nextId = this.#findNextId();\<close>\<close>

definition store_entry :: "jsnum \<Rightarrow> 'a \<Rightarrow> 'a TerrainMap \<Rightarrow> 'a TerrainMap" where
  "store_entry k terrain s =
     (let s1 = s\<lparr>entries := Map_set k terrain (entries s)\<rparr>
      in s1\<lparr>nextId := findNextId s1\<rparr>)"

text \<open>\<open>id ??= this.#nextId\<close>\<close>

fun nullish_default :: "jsval \<Rightarrow> jsnum \<Rightarrow> jsval" where
  "nullish_default Undefined d = Number d"
| "nullish_default Null d = Number d"
| "nullish_default v d = v"

text \<open>
  \<open>set(id, terrain, override)\<close>: the value returned (undefined after an error), the console
  calls made, and the map afterwards.
\<close>

definition set_tm ::
  "jsval \<Rightarrow> 'a \<Rightarrow> bool \<Rightarrow> 'a TerrainMap \<Rightarrow> jsval \<times> console_call list \<times> 'a TerrainMap" where
  "set_tm id0 terrain override s =
     (let ident = nullish_default id0 (nextId s) in
      if \<not> override \<and> Map_has ident (entries s)
      then (Undefined, [console_error IdAlreadyPresent], s)
      else
        (case ident of
           Number k \<Rightarrow>
             if \<not> isInteger ident \<or> js_lt k (Num 1)
             then (Undefined, [console_error (IdInvalid ident)], s)
             else (Number k, warn_exceeds k, store_entry k terrain s)
         | _ \<Rightarrow> (Undefined, [console_error (IdInvalid ident)], s)))"

text \<open>\<open>add(terrain)\<close>\<close>

definition add :: "'a \<Rightarrow> 'a TerrainMap \<Rightarrow> jsval \<times> console_call list \<times> 'a TerrainMap" where
  "add terrain s =
     (let k = nextId s
      in (Number k, warn_exceeds k, store_entry k terrain s))"

text \<open>\<open>clear()\<close>\<close>

definition clear :: "'a TerrainMap \<Rightarrow> 'a TerrainMap" where
  "clear s = s\<lparr>entries := [], nextId := Num 1\<rparr>"

text \<open>
  \<open>delete(id)\<close>. \<open>super.delete\<close> removes a key that is present, so where it returns true
  the id is a number and \<open>this.#nextId > id\<close> compares two numbers.
\<close>

definition delete :: "jsval \<Rightarrow> 'a TerrainMap \<Rightarrow> bool \<times> 'a TerrainMap" where
  "delete ident s =
     (case ident of
        Number k \<Rightarrow>
          if \<not> Map_has ident (entries s) then (False, s)
          else
            let s1 = s\<lparr>entries := Map_delete k (entries s)\<rparr>
            in if js_gt (nextId s1) k then (True, s1\<lparr>nextId := findNextId s1\<rparr>) else (True, s1)
      | _ \<Rightarrow> (False, s))"

text \<open>A run of \<open>add\<close> calls, one per terrain, collecting the ids returned.\<close>

fun add_all :: "'a list \<Rightarrow> 'a TerrainMap \<Rightarrow> jsval list \<times> 'a TerrainMap" where
  "add_all [] s = ([], s)"
| "add_all (t # ts) s =
     (case add t s of (r, _, s1) \<Rightarrow>
        (case add_all ts s1 of (rs, s2) \<Rightarrow> (r # rs, s2)))"

text \<open>The ids \<open>i, i + 1, ..., j\<close> as keys, and the states that hold exactly \<open>1..n\<close>.\<close>

definition ids :: "nat \<Rightarrow> nat \<Rightarrow> jsnum list" where
  "ids i j = map (\<lambda>n. Num (of_nat n)) [i..<Suc j]"

definition dense :: "nat \<Rightarrow> 'a TerrainMap \<Rightarrow> bool" where
  "dense n s = (Map_keys (entries s) = ids 1 n \<and> nextId s = Num (of_nat (Suc n)))"

text \<open>What the claims call a positive integer: an integral number that is at least 1.\<close>

fun positive_integer :: "jsval \<Rightarrow> bool" where
  "positive_integer (Number (Num q)) = (of_int \<lfloor>q\<rfloor> = q \<and> 1 \<le> q)"
| "positive_integer _ = False"

section \<open>Terrain\<close>

subsection \<open>Constants and the backing record\<close>

text \<open>
  \<open>const.js\<close> is not among the sources. What \<open>Terrain.js\<close> reads from it is taken as a
  parameter: the module id, and the table \<open>FLAGS\<close> with the entries the accessors name.
  \<open>FLAGS.ANCHOR\<close> is an object (the code reads its property \<open>VALUE\<close>); the other entries
  are keys.
\<close>

record ANCHOR_flags =
  VALUE :: string

record FLAGS_table =
  ANCHOR :: ANCHOR_flags
  OFFSET :: string
  RANGE_BELOW :: string
  RANGE_ABOVE :: string
  USER_VISIBLE :: string
  COLOR :: string

record constants =
  MODULE_ID :: string
  FLAGS :: FLAGS_table

text \<open>What a call hands to \<open>getFlag\<close> or \<open>setFlag\<close> as the key: a string or that object.\<close>

datatype flag_key = KeyStr string | KeyObj ANCHOR_flags

text \<open>
  The active effect is a document of the host. Of it the accessors use the flag store:
  \<open>getFlag(scope, key)\<close> reads the value kept under a scope and a key, undefined when
  there is none, and \<open>setFlag(scope, key, value)\<close> keeps the value under the scope and the
  key it is given.
\<close>

record ActiveEffect =
  flags :: "string \<times> flag_key \<rightharpoonup> jsval"

definition getFlag :: "string \<Rightarrow> flag_key \<Rightarrow> ActiveEffect \<Rightarrow> jsval" where
  "getFlag scope key e = (case flags e (scope, key) of None \<Rightarrow> Undefined | Some v \<Rightarrow> v)"

definition setFlag :: "string \<Rightarrow> flag_key \<Rightarrow> jsval \<Rightarrow> ActiveEffect \<Rightarrow> ActiveEffect" where
  "setFlag scope key v e = e\<lparr>flags := (flags e)((scope, key) \<mapsto> v)\<rparr>"

text \<open>
  Modelled from the spec: \<open>EffectHelper.js\<close> is not among the sources. The spec has the
  entity wrap a backing-record handle, so the helper holds the effect it was constructed
  with, and its property \<open>effect\<close> is that effect.
\<close>

record EffectHelper =
  effect :: ActiveEffect

subsection \<open>The entity\<close>

text \<open>
  The values a configuration object or an imported document holds: primitives, and
  objects of the host (documents, their snapshots), which stay opaque. What the code
  calls on them is a parameter: \<open>x.toJSON()\<close>, \<open>x.updateSource(value)\<close> and
  \<open>new ActiveEffect(value)\<close>, each of which may throw.
\<close>

datatype 'o val = Prim jsval | Obj 'o

datatype js_error = TypeError

record 'o host =
  obj_toJSON :: "'o \<Rightarrow> js_error + 'o val"
  obj_updateSource :: "'o \<Rightarrow> 'o val \<Rightarrow> js_error + 'o val"
  new_ActiveEffect :: "'o val \<Rightarrow> js_error + 'o"

text \<open>
  A Terrain. The constructor assigns \<open>_effectHelper\<close> and nothing else. The class has no
  field, accessor or assignment named \<open>config\<close>, so \<open>this.config\<close> is undefined (\<open>None\<close>)
  on every instance the class builds; it is an object only where code outside the class
  has attached one. The fields \<open>_settings\<close> and \<open>#pixelId\<close> are declared and never used.
\<close>

record 'o Terrain =
  effectHelper :: EffectHelper
  config :: "(string \<rightharpoonup> 'o val) option"

definition Terrain_new :: "ActiveEffect \<Rightarrow> 'o Terrain" where
  "Terrain_new activeEffect = \<lparr>effectHelper = \<lparr>effect = activeEffect\<rparr>, config = None\<rparr>"

definition activeEffect :: "'o Terrain \<Rightarrow> ActiveEffect" where
  "activeEffect t = effect (effectHelper t)"

text \<open>
  \<open>#getAEFlag\<close> and \<open>#setAEFlag\<close>. The write is returned by the asynchronous function as
  the document the host resolves with, next to the entity afterwards; the host's write is
  taken to succeed.
\<close>

definition getAEFlag :: "constants \<Rightarrow> flag_key \<Rightarrow> 'o Terrain \<Rightarrow> jsval" where
  "getAEFlag C flag t = getFlag (MODULE_ID C) flag (activeEffect t)"

definition setAEFlag ::
  "constants \<Rightarrow> flag_key \<Rightarrow> jsval \<Rightarrow> 'o Terrain \<Rightarrow> ActiveEffect \<times> 'o Terrain" where
  "setAEFlag C flag v t =
     (let e = setFlag (MODULE_ID C) flag v (activeEffect t)
      in (e, t\<lparr>effectHelper := (effectHelper t)\<lparr>effect := e\<rparr>\<rparr>))"

text \<open>
  The accessors: for each attribute the getter, the setter (\<open>set x(value)\<close>, which drops
  the promise) and the asynchronous setter (\<open>async setX(value)\<close>, which returns it).
\<close>

definition anchor :: "constants \<Rightarrow> 'o Terrain \<Rightarrow> jsval" where
  "anchor C t = getAEFlag C (KeyStr (VALUE (ANCHOR (FLAGS C)))) t"

definition set_anchor :: "constants \<Rightarrow> jsval \<Rightarrow> 'o Terrain \<Rightarrow> 'o Terrain" where
  "set_anchor C v t = snd (setAEFlag C (KeyStr (VALUE (ANCHOR (FLAGS C)))) v t)"

definition setAnchor :: "constants \<Rightarrow> jsval \<Rightarrow> 'o Terrain \<Rightarrow> ActiveEffect \<times> 'o Terrain" where
  "setAnchor C v t = setAEFlag C (KeyObj (ANCHOR (FLAGS C))) v t"

definition offset :: "constants \<Rightarrow> 'o Terrain \<Rightarrow> jsval" where
  "offset C t = getAEFlag C (KeyStr (OFFSET (FLAGS C))) t"

definition set_offset :: "constants \<Rightarrow> jsval \<Rightarrow> 'o Terrain \<Rightarrow> 'o Terrain" where
  "set_offset C v t = snd (setAEFlag C (KeyStr (OFFSET (FLAGS C))) v t)"

definition setOffset :: "constants \<Rightarrow> jsval \<Rightarrow> 'o Terrain \<Rightarrow> ActiveEffect \<times> 'o Terrain" where
  "setOffset C v t = setAEFlag C (KeyStr (OFFSET (FLAGS C))) v t"

definition rangeBelow :: "constants \<Rightarrow> 'o Terrain \<Rightarrow> jsval" where
  "rangeBelow C t = getAEFlag C (KeyStr (RANGE_BELOW (FLAGS C))) t"

definition set_rangeBelow :: "constants \<Rightarrow> jsval \<Rightarrow> 'o Terrain \<Rightarrow> 'o Terrain" where
  "set_rangeBelow C v t = snd (setAEFlag C (KeyStr (RANGE_BELOW (FLAGS C))) v t)"

definition setRangeBelow ::
  "constants \<Rightarrow> jsval \<Rightarrow> 'o Terrain \<Rightarrow> ActiveEffect \<times> 'o Terrain" where
  "setRangeBelow C v t = setAEFlag C (KeyStr (RANGE_BELOW (FLAGS C))) v t"

definition rangeAbove :: "constants \<Rightarrow> 'o Terrain \<Rightarrow> jsval" where
  "rangeAbove C t = getAEFlag C (KeyStr (RANGE_ABOVE (FLAGS C))) t"

definition set_rangeAbove :: "constants \<Rightarrow> jsval \<Rightarrow> 'o Terrain \<Rightarrow> 'o Terrain" where
  "set_rangeAbove C v t = snd (setAEFlag C (KeyStr (RANGE_ABOVE (FLAGS C))) v t)"

definition setRangeAbove ::
  "constants \<Rightarrow> jsval \<Rightarrow> 'o Terrain \<Rightarrow> ActiveEffect \<times> 'o Terrain" where
  "setRangeAbove C v t = setAEFlag C (KeyStr (RANGE_ABOVE (FLAGS C))) v t"

definition userVisible :: "constants \<Rightarrow> 'o Terrain \<Rightarrow> jsval" where
  "userVisible C t = getAEFlag C (KeyStr (USER_VISIBLE (FLAGS C))) t"

definition set_userVisible :: "constants \<Rightarrow> jsval \<Rightarrow> 'o Terrain \<Rightarrow> 'o Terrain" where
  "set_userVisible C v t = snd (setAEFlag C (KeyStr (USER_VISIBLE (FLAGS C))) v t)"

definition setUserVisible ::
  "constants \<Rightarrow> jsval \<Rightarrow> 'o Terrain \<Rightarrow> ActiveEffect \<times> 'o Terrain" where
  "setUserVisible C v t = setAEFlag C (KeyStr (USER_VISIBLE (FLAGS C))) v t"

definition color :: "constants \<Rightarrow> 'o Terrain \<Rightarrow> jsval" where
  "color C t = getAEFlag C (KeyStr (COLOR (FLAGS C))) t"

definition set_color :: "constants \<Rightarrow> jsval \<Rightarrow> 'o Terrain \<Rightarrow> 'o Terrain" where
  "set_color C v t = snd (setAEFlag C (KeyStr (COLOR (FLAGS C))) v t)"

definition setColor :: "constants \<Rightarrow> jsval \<Rightarrow> 'o Terrain \<Rightarrow> ActiveEffect \<times> 'o Terrain" where
  "setColor C v t = setAEFlag C (KeyStr (COLOR (FLAGS C))) v t"

text \<open>\<open>elevationMinMax(anchorE)\<close>\<close>

record ElevationMinMax =
  minE :: jsval
  maxE :: jsval

definition elevationMinMax :: "constants \<Rightarrow> 'o Terrain \<Rightarrow> jsval \<Rightarrow> ElevationMinMax" where
  "elevationMinMax C t anchorE =
     (let offset = offset C t; rangeBelow = rangeBelow C t; rangeAbove = rangeAbove C t;
          e = js_plus anchorE offset
      in \<lparr>minE = js_plus e rangeBelow, maxE = js_plus e rangeAbove\<rparr>)"

text \<open>
  Reading a property of an object gives undefined where the object has none. Calling a
  method on a primitive that has no such method throws a TypeError, as does reading or
  writing a property of undefined.
\<close>

definition get_prop :: "(string \<rightharpoonup> 'o val) \<Rightarrow> string \<Rightarrow> 'o val" where
  "get_prop obj key = (case obj key of None \<Rightarrow> Prim Undefined | Some v \<Rightarrow> v)"

fun truthy_val :: "'o val \<Rightarrow> bool" where
  "truthy_val (Prim v) = truthy v"
| "truthy_val (Obj _) = True"

text \<open>
  \<open>toJSON()\<close>. \<open>out\<close> is the configuration object itself, not a copy: the assignment to
  \<open>out.activeEffect\<close> changes the entity, and the object is returned.
\<close>

definition toJSON ::
  "'o host \<Rightarrow> 'o Terrain \<Rightarrow> js_error + (string \<rightharpoonup> 'o val) \<times> 'o Terrain" where
  "toJSON H t =
     (case config t of
        None \<Rightarrow> Inl TypeError
      | Some out \<Rightarrow>
          (case (if truthy_val (get_prop out ''activeEffect'')
                 then (case get_prop out ''activeEffect'' of
                         Obj d \<Rightarrow> obj_toJSON H d
                       | Prim _ \<Rightarrow> Inl TypeError)
                 else Inr (Prim Undefined)) of
             Inl err \<Rightarrow> Inl err
           | Inr v \<Rightarrow>
               let out' = out(''activeEffect'' \<mapsto> v)
               in Inr (out', t\<lparr>config := Some out'\<rparr>)))"

text \<open>
  \<open>updateSource(json)\<close>: the loop over \<open>Object.entries(json)\<close>, then the function. The key
  \<open>id\<close> is skipped before the configuration object is touched.
\<close>

fun updateSource_loop ::
  "'o host \<Rightarrow> (string \<rightharpoonup> 'o val) option \<Rightarrow> (string \<times> 'o val) list
     \<Rightarrow> js_error + (string \<rightharpoonup> 'o val) option" where
  "updateSource_loop H cfg [] = Inr cfg"
| "updateSource_loop H cfg ((key, v) # rest) =
     (if key = ''id'' then updateSource_loop H cfg rest
      else
        (case cfg of
           None \<Rightarrow> Inl TypeError
         | Some c \<Rightarrow>
             if key = ''activeEffect'' then
               (case (if truthy_val (get_prop c ''activeEffect'')
                      then (case get_prop c ''activeEffect'' of
                              Obj d \<Rightarrow> obj_updateSource H d v
                            | Prim _ \<Rightarrow> Inl TypeError)
                      else map_sum id Obj (new_ActiveEffect H v)) of
                  Inl err \<Rightarrow> Inl err
                | Inr a \<Rightarrow> updateSource_loop H (Some (c(''activeEffect'' \<mapsto> a))) rest)
             else updateSource_loop H (Some (c(key \<mapsto> v))) rest))"

definition updateSource ::
  "'o host \<Rightarrow> (string \<times> 'o val) list \<Rightarrow> 'o Terrain \<Rightarrow> js_error + 'o Terrain" where
  "updateSource H json t =
     (case updateSource_loop H (config t) json of
        Inl err \<Rightarrow> Inl err
      | Inr c \<Rightarrow> Inr (t\<lparr>config := c\<rparr>))"

text \<open>A table of constants to run the accessors on.\<close>

definition sample_constants :: constants where
  "sample_constants =
     \<lparr>MODULE_ID = ''terrainmapper'',
      FLAGS = \<lparr>ANCHOR = \<lparr>VALUE = ''anchor''\<rparr>, OFFSET = ''offset'',
               RANGE_BELOW = ''rangeBelow'', RANGE_ABOVE = ''rangeAbove'',
               USER_VISIBLE = ''userVisible'', COLOR = ''color''\<rparr>\<rparr>"

section \<open>Facts about the Map and the key scan\<close>

lemma sort_keys_sorted:
  "sorted_wrt (\<lambda>a b. compareFn a b \<le> 0) xs \<Longrightarrow> sort_keys xs = xs"
proof (induction xs)
  case Nil
  then show ?case by simp
next
  case (Cons x xs)
  then have "sort_keys xs = xs" by simp
  then show ?case using Cons.prems by (cases xs) auto
qed

lemma ids_sorted: "sorted_wrt (\<lambda>a b. compareFn a b \<le> 0) (ids i j)"
proof -
  have "sorted_wrt (\<lambda>a b. a \<le> b) [i..<Suc j]"
    using sorted_upt[of i "Suc j"] by simp
  then have "sorted_wrt (\<lambda>a b. compareFn (Num (of_nat a)) (Num (of_nat b)) \<le> 0) [i..<Suc j]"
    by (rule sorted_wrt_mono_rel[rotated]) (simp add: compareFn_def)
  then show ?thesis by (simp add: ids_def sorted_wrt_map)
qed

lemma find_last_ids:
  "i \<le> j \<Longrightarrow> find_lastConsecutiveKey (ids i j) = Some (Num (of_nat j))"
proof (induction "j - i" arbitrary: i)
  case 0
  then have "i = j" by simp
  then show ?case by (simp add: ids_def)
next
  case (Suc d)
  then have lt: "i < j" by simp
  then have e: "[i..<Suc j] = i # Suc i # [Suc (Suc i)..<Suc j]"
    by (simp add: upt_rec)
  have e2: "[Suc i..<Suc j] = Suc i # [Suc (Suc i)..<Suc j]"
    using lt by (simp add: upt_rec)
  have "find_lastConsecutiveKey (ids (Suc i) j) = Some (Num (of_nat j))"
    using Suc(1)[of "Suc i"] Suc(2) lt by simp
  then show ?case unfolding ids_def e using e2 by simp
qed

lemma Map_keys_Map_set:
  "Map_keys (Map_set k v m) =
     (if k \<in> set (Map_keys m) then Map_keys m else Map_keys m @ [k])"
  by (induction m) (force simp: Map_keys_def)+

lemma length_Map_set:
  "length (Map_set k v m) = (if k \<in> set (Map_keys m) then length m else Suc (length m))"
  by (induction m) (force simp: Map_keys_def)+

lemma map_of_Map_set: "map_of (Map_set k v m) = (map_of m)(k \<mapsto> v)"
  by (induction m) auto

lemma ids_snoc: "ids 1 n @ [Num (of_nat (Suc n))] = ids 1 (Suc n)"
  by (simp add: ids_def)

lemma next_not_in_ids: "Num (of_nat (Suc n)) \<notin> set (ids 1 n)"
  by (auto simp: ids_def)

lemma dense_new: "dense 0 TerrainMap_new"
  by (simp add: dense_def TerrainMap_new_def Map_keys_def ids_def)

lemma dense_clear: "dense 0 (clear s)"
  by (simp add: dense_def clear_def Map_keys_def ids_def)

lemma add_dense:
  assumes "dense n s"
  shows "fst (add t s) = Number (Num (of_nat (Suc n))) \<and> dense (Suc n) (snd (snd (add t s)))"
proof -
  let ?k = "Num (of_nat (Suc n))"
  let ?m = "Map_set ?k t (entries s)"
  from assms have keys: "Map_keys (entries s) = ids 1 n" and nid: "nextId s = ?k"
    by (simp_all add: dense_def)
  have fresh: "?k \<notin> set (Map_keys (entries s))"
    using keys next_not_in_ids by simp
  have k1: "Map_keys ?m = ids 1 (Suc n)"
    using fresh keys ids_snoc by (simp add: Map_keys_Map_set)
  have len: "length (entries s) = n"
    using keys by (metis Map_keys_def length_map ids_def length_upt diff_Suc_1)
  have l1: "length ?m = Suc n"
    using fresh len by (simp add: length_Map_set)
  have "findNextId (s\<lparr>entries := ?m\<rparr>) = Num (of_nat (Suc (Suc n)))"
    using k1 l1 nid sort_keys_sorted[OF ids_sorted, of 1 "Suc n"] find_last_ids[of 1 "Suc n"]
    by (simp add: findNextId_def Map_size_def)
  then show ?thesis
    using nid k1 by (simp add: add_def store_entry_def dense_def Let_def)
qed

lemma add_all_dense:
  "dense n s \<Longrightarrow>
   fst (add_all ts s) = map (\<lambda>i. Number (Num (of_nat i))) [Suc n..<Suc (n + length ts)]"
proof (induction ts arbitrary: n s)
  case Nil
  then show ?case by simp
next
  case (Cons t ts)
  from add_dense[OF Cons.prems, of t]
  have r: "fst (add t s) = Number (Num (of_nat (Suc n)))"
    and d: "dense (Suc n) (snd (snd (add t s)))"
    by simp_all
  from Cons.IH[OF d]
  have ih: "fst (add_all ts (snd (snd (add t s)))) =
      map (\<lambda>i. Number (Num (of_nat i))) [Suc (Suc n)..<Suc (Suc n + length ts)]" .
  have "[Suc n..<Suc (n + length (t # ts))] = Suc n # [Suc (Suc n)..<Suc (Suc n + length ts)]"
    by (simp add: upt_rec)
  then show ?case
    using r ih by (simp add: split_beta del: upt_Suc)
qed

lemma entries_store_entry: "entries (store_entry k t s) = Map_set k t (entries s)"
  by (simp add: store_entry_def Let_def)

lemma MAX_TERRAINS_31: "MAX_TERRAINS = Num 31"
  by (simp add: MAX_TERRAINS_def)

lemma floor_three_halves: "\<lfloor>3 / 2 :: rat\<rfloor> = 1"
  by (simp add: floor_eq_iff)

subsection \<open>Rounding leaves integers up to \<open>2^53\<close> alone\<close>

lemma round_ties_even_of_int: "round_ties_even (of_int m) = m"
  by (simp add: round_ties_even_def)

lemma ulp_pos: "0 < ulp x"
  by (simp add: ulp_def)

lemma ulp_of_int:
  assumes "n \<noteq> 0" and "\<bar>n\<bar> \<le> 2 ^ 53"
  shows "\<exists>m. of_int n = of_int m * ulp (of_int n)"
proof -
  let ?a = "\<bar>n\<bar>"
  have pos: "0 < ?a"
    using assms(1) by simp
  have "1 \<le> ?a"
    using pos by linarith
  then have "(1::rat) \<le> of_int ?a"
    by (simp only: of_int_1_le_iff)
  then have one: "(1::rat) \<le> \<bar>of_int n\<bar>"
    by simp
  have fl: "floor_log2 \<bar>of_int n\<bar> = bitlen ?a - 1"
    using one by (simp add: floor_log2_def flip: of_int_abs)
  from bitlen_bounds[OF pos] have lo: "2 ^ nat (bitlen ?a - 1) \<le> ?a"
    by simp
  have b1: "1 \<le> bitlen ?a"
    using pos bitlen_eq_zero_iff[of ?a] bitlen_nonneg[of ?a] by linarith
  have p53: "(2::int) ^ nat (bitlen ?a - 1) \<le> 2 ^ 53"
    using lo assms(2) by linarith
  have "nat (bitlen ?a - 1) \<le> 53"
    by (rule power_le_imp_le_exp[of "2::int", OF _ p53]) simp
  then have b2: "bitlen ?a \<le> 54"
    by linarith
  define k where "k = bitlen ?a - 53"
  have u: "ulp (of_int n) = 2 powi k"
    using b1 by (simp add: ulp_def fl k_def max_def)
  show ?thesis
  proof (cases "k \<le> 0")
    case True
    then have "(2::rat) powi k = 1 / 2 ^ nat (- k)"
      by (simp add: power_int_def field_simps)
    then have "of_int n = of_int (n * 2 ^ nat (- k)) * ulp (of_int n)"
      using u by simp
    then show ?thesis
      by blast
  next
    case False
    then have k1: "k = 1"
      using b2 k_def by linarith
    then have "bitlen ?a = 54"
      using k_def by simp
    with lo have "2 ^ 53 \<le> ?a"
      by simp
    with assms(2) have a: "?a = 2 ^ 53"
      by linarith
    have "n = 2 ^ 53 \<or> n = - (2 ^ 53)"
      using a by linarith
    then have "of_int n = of_int (n div 2) * (2::rat)"
      by auto
    then show ?thesis
      using u k1 by auto
  qed
qed

lemma round_binary64_of_int:
  assumes "\<bar>n\<bar> \<le> 2 ^ 53"
  shows "round_binary64 (of_int n) = Num (of_int n)"
proof (cases "n = 0")
  case True
  then show ?thesis
    by (simp add: round_binary64_def)
next
  case False
  from ulp_of_int[OF False assms] obtain m where m: "of_int n = of_int m * ulp (of_int n)"
    by blast
  have nz: "ulp (of_int n) \<noteq> 0"
    using ulp_pos[of "of_int n"] by simp
  have "of_int n / ulp (of_int n) = (of_int m :: rat)"
    using m nz by (metis nonzero_mult_div_cancel_right)
  then have r: "of_int (round_ties_even (of_int n / ulp (of_int n))) * ulp (of_int n)
      = (of_int n :: rat)"
    using m by (simp add: round_ties_even_of_int)
  have "\<bar>of_int n :: rat\<bar> \<le> 2 ^ 53"
    using assms by (metis of_int_abs of_int_le_iff of_int_numeral of_int_power)
  also have "\<dots> < (2::rat) ^ 1024"
    by (rule power_strict_increasing) simp_all
  finally have small: "\<not> (2::rat) ^ 1024 \<le> \<bar>of_int n\<bar>"
    by simp
  show ?thesis
    using False r small by (simp add: round_binary64_def Let_def)
qed

lemma binary64_add_of_int:
  assumes "\<bar>i + j\<bar> \<le> 2 ^ 53"
  shows "binary64_add (Num (of_int i)) (Num (of_int j)) = js_add (Num (of_int i)) (Num (of_int j))"
  using round_binary64_of_int[OF assms] by (simp add: binary64_add_def)

text \<open>Past \<open>2^53\<close> the sum is rounded: \<open>2^53 + 1\<close> is \<open>2^53\<close>.\<close>

lemma round_binary64_2_53_plus_1: "round_binary64 (2 ^ 53 + 1) = Num (2 ^ 53)"
  by code_simp

text \<open>
  The binary64 values nearest to 0.1, 0.2 and 0.3, added from the left, give the value
  that prints as 0.6000000000000001.
\<close>

lemma binary64_add_tenths:
  "binary64_add
     (binary64_add (Num (3602879701896397 / 2 ^ 55)) (Num (3602879701896397 / 2 ^ 54)))
     (Num (5404319552844595 / 2 ^ 54))
   = Num (5404319552844596 / 2 ^ 53)"
  by code_simp

text \<open>
  The shortcut of \<open>#findNextId\<close> taken by accident: with the keys 1, 2, 3, 5 and the
  counter at 4, \<open>delete(2)\<close> leaves three keys, which equals the counter minus one, so the
  counter moves to 5; the next \<open>add\<close> returns 5 and replaces the terrain stored there,
  while 2 stays free.
\<close>

lemma delete_shortcut_overwrites:
  "set_tm (Number (Num 5)) ''ice'' False
         \<lparr>entries = [(Num 1, ''grass''), (Num 2, ''swamp''), (Num 3, ''lava'')],
          nextId = Num 4\<rparr>
       = (Number (Num 5), [],
          \<lparr>entries = [(Num 1, ''grass''), (Num 2, ''swamp''), (Num 3, ''lava''), (Num 5, ''ice'')],
           nextId = Num 4\<rparr>)
   \<and> delete (Number (Num 2))
         \<lparr>entries = [(Num 1, ''grass''), (Num 2, ''swamp''), (Num 3, ''lava''), (Num 5, ''ice'')],
          nextId = Num 4\<rparr>
       = (True,
          \<lparr>entries = [(Num 1, ''grass''), (Num 3, ''lava''), (Num 5, ''ice'')], nextId = Num 5\<rparr>)
   \<and> add ''mud''
         \<lparr>entries = [(Num 1, ''grass''), (Num 3, ''lava''), (Num 5, ''ice'')], nextId = Num 5\<rparr>
       = (Number (Num 5), [],
          \<lparr>entries = [(Num 1, ''grass''), (Num 3, ''lava''), (Num 5, ''mud'')], nextId = Num 2\<rparr>)"
  by (simp add: add_def set_tm_def delete_def store_entry_def findNextId_def Map_size_def
      Map_keys_def Map_has_def Map_delete_def compareFn_def warn_exceeds_def
      MAX_TERRAINS_def Let_def)

text \<open>
  The setter and the asynchronous setter of offset, rangeBelow, rangeAbove, userVisible
  and color make the same write.
\<close>

lemma other_setters_agree:
  "set_offset C v t = snd (setOffset C v t)"
  "set_rangeBelow C v t = snd (setRangeBelow C v t)"
  "set_rangeAbove C v t = snd (setRangeAbove C v t)"
  "set_userVisible C v t = snd (setUserVisible C v t)"
  "set_color C v t = snd (setColor C v t)"
  by (simp_all add: set_offset_def setOffset_def set_rangeBelow_def setRangeBelow_def
      set_rangeAbove_def setRangeAbove_def set_userVisible_def setUserVisible_def
      set_color_def setColor_def)

section \<open>The claims\<close>

text \<open>
  C1. Whenever an id is allocated automatically, it is the smallest positive integer
  that is not a key of the map. The code does not keep this: after two \<open>add\<close> calls on a
  fresh map and \<open>delete(1)\<close>, the map holds the key 2 alone and the counter stays at 3, so
  the next \<open>add\<close> assigns 3 while 1 is free.
\<close>

theorem add_skips_free_id:
  "snd (add_all [''grass'', ''swamp''] TerrainMap_new)
       = \<lparr>entries = [(Num 1, ''grass''), (Num 2, ''swamp'')], nextId = Num 3\<rparr>
   \<and> delete (Number (Num 1)) \<lparr>entries = [(Num 1, ''grass''), (Num 2, ''swamp'')], nextId = Num 3\<rparr>
       = (True, \<lparr>entries = [(Num 2, ''swamp'')], nextId = Num 3\<rparr>)
   \<and> \<not> Map_has (Number (Num 1)) [(Num 2, ''swamp'')]
   \<and> add ''lava'' \<lparr>entries = [(Num 2, ''swamp'')], nextId = Num 3\<rparr>
       = (Number (Num 3), [],
          \<lparr>entries = [(Num 2, ''swamp''), (Num 3, ''lava'')], nextId = Num 4\<rparr>)"
  by (simp add: add_def delete_def store_entry_def findNextId_def Map_size_def Map_keys_def
      Map_has_def Map_delete_def compareFn_def TerrainMap_new_def warn_exceeds_def
      MAX_TERRAINS_def Let_def)

text \<open>
  C2. A run of \<open>add\<close> calls on a freshly constructed map, or on a map just cleared, with
  nothing else in between, returns the ids 1, 2, ..., n in that order, n being the number
  of calls.
\<close>

theorem add_all_returns_1_to_n:
  "fst (add_all ts TerrainMap_new) = map (\<lambda>i. Number (Num (of_nat i))) [1..<Suc (length ts)]
   \<and> fst (add_all ts (clear s)) = map (\<lambda>i. Number (Num (of_nat i))) [1..<Suc (length ts)]"
  using add_all_dense[OF dense_new, of ts] add_all_dense[OF dense_clear, of ts s]
  by (simp del: upt_Suc)

text \<open>
  C3. When deleting an id leaves it the only unused id below the counter, the next \<open>add\<close>
  assigns that id. The code does not keep this: with the keys 1, 2, 3 and the counter at 4
  (three \<open>add\<close> calls on a fresh map), \<open>delete(1)\<close> leaves 1 the only unused id below 4,
  yet the counter stays at 4 and the next \<open>add\<close> returns 4.
\<close>

theorem delete_then_add_misses_gap:
  "snd (add_all [''grass'', ''swamp'', ''lava''] TerrainMap_new)
       = \<lparr>entries = [(Num 1, ''grass''), (Num 2, ''swamp''), (Num 3, ''lava'')],
          nextId = Num 4\<rparr>
   \<and> delete (Number (Num 1))
         \<lparr>entries = [(Num 1, ''grass''), (Num 2, ''swamp''), (Num 3, ''lava'')],
          nextId = Num 4\<rparr>
       = (True, \<lparr>entries = [(Num 2, ''swamp''), (Num 3, ''lava'')], nextId = Num 4\<rparr>)
   \<and> \<not> Map_has (Number (Num 1)) [(Num 2, ''swamp''), (Num 3, ''lava'')]
   \<and> Map_has (Number (Num 2)) [(Num 2, ''swamp''), (Num 3, ''lava'')]
   \<and> Map_has (Number (Num 3)) [(Num 2, ''swamp''), (Num 3, ''lava'')]
   \<and> add ''mud'' \<lparr>entries = [(Num 2, ''swamp''), (Num 3, ''lava'')], nextId = Num 4\<rparr>
       = (Number (Num 4), [],
          \<lparr>entries = [(Num 2, ''swamp''), (Num 3, ''lava''), (Num 4, ''mud'')],
           nextId = Num 5\<rparr>)"
  by (simp add: add_def delete_def store_entry_def findNextId_def Map_size_def Map_keys_def
      Map_has_def Map_delete_def compareFn_def TerrainMap_new_def warn_exceeds_def
      MAX_TERRAINS_def Let_def)

text \<open>
  C4, as stated: \<open>set(id, t)\<close> without override fails, and stores nothing, whenever the id
  is occupied or is not a positive integer. Null and undefined are not positive integers,
  yet \<open>set\<close> does not fail on them: \<open>id ??= this.#nextId\<close> puts the counter in their place,
  and with a free counter the entry is stored and the counter's value returned.
\<close>

theorem set_nullish_id_counterexample:
  "\<not> positive_integer Null
   \<and> \<not> Map_has Null [(Num 1, ''grass'')]
   \<and> set_tm Null ''swamp'' False \<lparr>entries = [(Num 1, ''grass'')], nextId = Num 2\<rparr>
       = (Number (Num 2), [],
          \<lparr>entries = [(Num 1, ''grass''), (Num 2, ''swamp'')], nextId = Num 3\<rparr>)"
  by (simp add: set_tm_def store_entry_def findNextId_def Map_size_def Map_keys_def Map_has_def
      compareFn_def warn_exceeds_def MAX_TERRAINS_def Let_def)

text \<open>
  C4, amended: \<open>set(id, t)\<close> without override fails when the id the checks see is occupied
  or is not a positive integer, that id being the argument, or the counter where the
  argument is null or undefined. It then returns undefined, reports one error on the
  console, and leaves the entries and the counter as they were.
\<close>

theorem set_rejects_occupied_or_invalid:
  assumes "Map_has (nullish_default id0 (nextId s)) (entries s)
           \<or> \<not> positive_integer (nullish_default id0 (nextId s))"
  shows "set_tm id0 t False s =
     (Undefined,
      [console_error
         (if Map_has (nullish_default id0 (nextId s)) (entries s) then IdAlreadyPresent
          else IdInvalid (nullish_default id0 (nextId s)))],
      s)"
proof (cases "Map_has (nullish_default id0 (nextId s)) (entries s)")
  case True
  then show ?thesis by (simp add: set_tm_def)
next
  case False
  with assms have np: "\<not> positive_integer (nullish_default id0 (nextId s))"
    by simp
  show ?thesis
  proof (cases "nullish_default id0 (nextId s)")
    case (Number k)
    with np show ?thesis
      using False by (cases k) (auto simp: set_tm_def)
  qed (simp_all add: set_tm_def False)
qed

theorem set_rejects_occupied_or_invalid_witness:
  "set_tm (Number (Num 0)) ''swamp'' False \<lparr>entries = [(Num 1, ''grass'')], nextId = Num 2\<rparr>
     = (Undefined, [console_error (IdInvalid (Number (Num 0)))],
        \<lparr>entries = [(Num 1, ''grass'')], nextId = Num 2\<rparr>)
   \<and> set_tm (Number (Num (3 / 2))) ''swamp'' False
        \<lparr>entries = [(Num 1, ''grass'')], nextId = Num 2\<rparr>
     = (Undefined, [console_error (IdInvalid (Number (Num (3 / 2))))],
        \<lparr>entries = [(Num 1, ''grass'')], nextId = Num 2\<rparr>)
   \<and> set_tm (Number (Num 1)) ''swamp'' False \<lparr>entries = [(Num 1, ''grass'')], nextId = Num 2\<rparr>
     = (Undefined, [console_error IdAlreadyPresent],
        \<lparr>entries = [(Num 1, ''grass'')], nextId = Num 2\<rparr>)"
proof -
  let ?s = "\<lparr>entries = [(Num 1, ''grass'')], nextId = Num 2\<rparr>"
  have a: "\<not> positive_integer (nullish_default (Number (Num 0)) (nextId ?s))"
    by simp
  have b: "\<not> positive_integer (nullish_default (Number (Num (3 / 2))) (nextId ?s))"
    by (simp add: floor_three_halves)
  have c: "Map_has (nullish_default (Number (Num 1)) (nextId ?s)) (entries ?s)"
    by (simp add: Map_has_def Map_keys_def)
  have na: "\<not> Map_has (Number (Num 0)) (entries ?s)"
    by (simp add: Map_has_def Map_keys_def)
  have nb: "\<not> Map_has (Number (Num (3 / 2))) (entries ?s)"
    by (simp add: Map_has_def Map_keys_def)
  show ?thesis
    using set_rejects_occupied_or_invalid[of "Number (Num 0)" ?s "''swamp''"] a na
      set_rejects_occupied_or_invalid[of "Number (Num (3 / 2))" ?s "''swamp''"] b nb
      set_rejects_occupied_or_invalid[of "Number (Num 1)" ?s "''swamp''"] c
    by simp
qed

text \<open>
  C6. Serialising an entity with \<open>toJSON\<close> and applying the result to a fresh entity with
  \<open>updateSource\<close> reproduces every attribute but the identifier. The code cannot do this:
  both functions work on \<open>this.config\<close>, which no entity built by the constructor has, so
  \<open>toJSON\<close> throws a TypeError, and so does \<open>updateSource\<close> at the first key other than
  \<open>id\<close>, whatever the host's documents do.
\<close>

theorem toJSON_of_new_Terrain_throws:
  "toJSON H (Terrain_new e) = Inl TypeError
   \<and> updateSource H [(''offset'', Prim (Number (Num 5)))] (Terrain_new e) = Inl TypeError
   \<and> updateSource H [(''activeEffect'', snapshot)] (Terrain_new e) = Inl TypeError"
  by (simp add: toJSON_def updateSource_def Terrain_new_def)

text \<open>
  C7, as stated: \<open>elevationMinMax(a)\<close> is exactly \<open>a + offset + rangeBelow\<close> and
  \<open>a + offset + rangeAbove\<close>. The sums of the code are binary64 sums, each rounded: with
  the anchor \<open>2^53\<close>, offset 1 and both ranges 0 the code returns \<open>2^53\<close> twice, not
  \<open>2^53 + 1\<close>.
\<close>

theorem elevationMinMax_exact_sum_counterexample:
  "offset sample_constants
     (set_rangeAbove sample_constants (Number (Num 0))
       (set_rangeBelow sample_constants (Number (Num 0))
         (set_offset sample_constants (Number (Num 1)) (Terrain_new \<lparr>flags = Map.empty\<rparr>))))
     = Number (Num 1)
   \<and> rangeBelow sample_constants
     (set_rangeAbove sample_constants (Number (Num 0))
       (set_rangeBelow sample_constants (Number (Num 0))
         (set_offset sample_constants (Number (Num 1)) (Terrain_new \<lparr>flags = Map.empty\<rparr>))))
     = Number (Num 0)
   \<and> rangeAbove sample_constants
     (set_rangeAbove sample_constants (Number (Num 0))
       (set_rangeBelow sample_constants (Number (Num 0))
         (set_offset sample_constants (Number (Num 1)) (Terrain_new \<lparr>flags = Map.empty\<rparr>))))
     = Number (Num 0)
   \<and> elevationMinMax sample_constants
     (set_rangeAbove sample_constants (Number (Num 0))
       (set_rangeBelow sample_constants (Number (Num 0))
         (set_offset sample_constants (Number (Num 1)) (Terrain_new \<lparr>flags = Map.empty\<rparr>))))
     (Number (Num (2 ^ 53)))
     = \<lparr>minE = Number (Num (2 ^ 53)), maxE = Number (Num (2 ^ 53))\<rparr>
   \<and> elevationMinMax sample_constants
     (set_rangeAbove sample_constants (Number (Num 0))
       (set_rangeBelow sample_constants (Number (Num 0))
         (set_offset sample_constants (Number (Num 1)) (Terrain_new \<lparr>flags = Map.empty\<rparr>))))
     (Number (Num (2 ^ 53)))
     \<noteq> \<lparr>minE = Number (Num (2 ^ 53 + 1 + 0)), maxE = Number (Num (2 ^ 53 + 1 + 0))\<rparr>"
proof -
  let ?t = "set_rangeAbove sample_constants (Number (Num 0))
       (set_rangeBelow sample_constants (Number (Num 0))
         (set_offset sample_constants (Number (Num 1)) (Terrain_new \<lparr>flags = Map.empty\<rparr>)))"
  note defs = offset_def rangeBelow_def rangeAbove_def set_rangeAbove_def set_rangeBelow_def
    set_offset_def getAEFlag_def setAEFlag_def getFlag_def setFlag_def activeEffect_def
    Terrain_new_def sample_constants_def Let_def
  have o: "offset sample_constants ?t = Number (Num 1)"
    by (simp add: defs)
  have b: "rangeBelow sample_constants ?t = Number (Num 0)"
    by (simp add: defs)
  have a: "rangeAbove sample_constants ?t = Number (Num 0)"
    by (simp add: defs)
  have r1: "binary64_add (Num (2 ^ 53)) (Num 1) = Num (2 ^ 53)"
    using round_binary64_2_53_plus_1 by (simp add: binary64_add_def)
  have "round_binary64 (of_int (2 ^ 53)) = Num (of_int (2 ^ 53))"
    by (rule round_binary64_of_int) simp
  then have r2: "binary64_add (Num (2 ^ 53)) (Num 0) = Num (2 ^ 53)"
    by (simp add: binary64_add_def)
  have e: "elevationMinMax sample_constants ?t (Number (Num (2 ^ 53)))
      = \<lparr>minE = Number (Num (2 ^ 53)), maxE = Number (Num (2 ^ 53))\<rparr>"
    unfolding elevationMinMax_def o b a Let_def js_plus_def using r1 r2 by simp
  show ?thesis
    unfolding e o b a by simp
qed

text \<open>
  C7, amended: for an entity whose offset, rangeBelow and rangeAbove are numbers and an
  anchor elevation a, \<open>elevationMinMax(a)\<close> is the binary64 sums \<open>(a + offset) + rangeBelow\<close>
  and \<open>(a + offset) + rangeAbove\<close>, with no clamping, also where that makes min exceed
  max. Where the four numbers are integers and the sums stay within \<open>2^53\<close> in magnitude,
  these are the exact sums: with offset 5, rangeBelow -10 and rangeAbove 20,
  \<open>elevationMinMax(100)\<close> is 95 and 125.
\<close>

theorem elevationMinMax_binary64_sums:
  assumes "offset C t = Number off"
    and "rangeBelow C t = Number rb"
    and "rangeAbove C t = Number ra"
  shows "elevationMinMax C t (Number a) =
           \<lparr>minE = Number (binary64_add (binary64_add a off) rb),
            maxE = Number (binary64_add (binary64_add a off) ra)\<rparr>
       \<and> (a = Num (of_int i) \<and> off = Num (of_int j) \<and> rb = Num (of_int k) \<and> ra = Num (of_int l)
            \<and> \<bar>i + j\<bar> \<le> 2 ^ 53 \<and> \<bar>i + j + k\<bar> \<le> 2 ^ 53 \<and> \<bar>i + j + l\<bar> \<le> 2 ^ 53 \<longrightarrow>
          elevationMinMax C t (Number a) =
            \<lparr>minE = Number (Num (of_int (i + j + k))), maxE = Number (Num (of_int (i + j + l)))\<rparr>)"
proof -
  have 1: "elevationMinMax C t (Number a) =
           \<lparr>minE = Number (binary64_add (binary64_add a off) rb),
            maxE = Number (binary64_add (binary64_add a off) ra)\<rparr>"
    using assms by (simp add: elevationMinMax_def js_plus_def)
  have 2: "binary64_add (binary64_add (Num (of_int i)) (Num (of_int j))) (Num (of_int m))
      = Num (of_int (i + j + m))"
    if "\<bar>i + j\<bar> \<le> 2 ^ 53" and "\<bar>i + j + m\<bar> \<le> 2 ^ 53" for m
  proof -
    have "binary64_add (Num (of_int i)) (Num (of_int j)) = Num (of_int (i + j))"
      using binary64_add_of_int[OF that(1)] by simp
    moreover have "binary64_add (Num (of_int (i + j))) (Num (of_int m)) = Num (of_int (i + j + m))"
      using binary64_add_of_int[OF that(2)] by simp
    ultimately show ?thesis
      by simp
  qed
  show ?thesis
    using 1 2 by auto
qed

theorem elevationMinMax_binary64_sums_witness:
  "elevationMinMax sample_constants
     (set_rangeAbove sample_constants (Number (Num 20))
       (set_rangeBelow sample_constants (Number (Num (- 10)))
         (set_offset sample_constants (Number (Num 5)) (Terrain_new \<lparr>flags = Map.empty\<rparr>))))
     (Number (Num 100))
   = \<lparr>minE = Number (Num 95), maxE = Number (Num 125)\<rparr>
   \<and> elevationMinMax sample_constants
     (set_rangeAbove sample_constants (Number (Num (- 10)))
       (set_rangeBelow sample_constants (Number (Num 10))
         (set_offset sample_constants (Number (Num 0)) (Terrain_new \<lparr>flags = Map.empty\<rparr>))))
     (Number (Num 100))
   = \<lparr>minE = Number (Num 110), maxE = Number (Num 90)\<rparr>"
proof -
  let ?t = "set_rangeAbove sample_constants (Number (Num 20))
       (set_rangeBelow sample_constants (Number (Num (- 10)))
         (set_offset sample_constants (Number (Num 5)) (Terrain_new \<lparr>flags = Map.empty\<rparr>)))"
  let ?u = "set_rangeAbove sample_constants (Number (Num (- 10)))
       (set_rangeBelow sample_constants (Number (Num 10))
         (set_offset sample_constants (Number (Num 0)) (Terrain_new \<lparr>flags = Map.empty\<rparr>)))"
  note defs = offset_def rangeBelow_def rangeAbove_def set_rangeAbove_def set_rangeBelow_def
    set_offset_def getAEFlag_def setAEFlag_def getFlag_def setFlag_def activeEffect_def
    Terrain_new_def sample_constants_def Let_def
  have o: "offset sample_constants ?t = Number (Num 5)"
    by (simp add: defs)
  have b: "rangeBelow sample_constants ?t = Number (Num (- 10))"
    by (simp add: defs)
  have a: "rangeAbove sample_constants ?t = Number (Num 20)"
    by (simp add: defs)
  have o': "offset sample_constants ?u = Number (Num 0)"
    by (simp add: defs)
  have b': "rangeBelow sample_constants ?u = Number (Num 10)"
    by (simp add: defs)
  have a': "rangeAbove sample_constants ?u = Number (Num (- 10))"
    by (simp add: defs)
  have t: "elevationMinMax sample_constants ?t (Number (Num 100))
      = \<lparr>minE = Number (Num 95), maxE = Number (Num 125)\<rparr>"
    using elevationMinMax_binary64_sums[OF o b a, of "Num 100" 100 5 "- 10" 20, THEN conjunct2]
    by simp
  have u: "elevationMinMax sample_constants ?u (Number (Num 100))
      = \<lparr>minE = Number (Num 110), maxE = Number (Num 90)\<rparr>"
    using elevationMinMax_binary64_sums[OF o' b' a', of "Num 100" 100 0 10 "- 10", THEN conjunct2]
    by simp
  show ?thesis
    using t u by (rule conjI)
qed

text \<open>
  C8. For each of anchor, offset, rangeBelow, rangeAbove, userVisible and color, the
  setter and the asynchronous setter store the same value under the same key of the
  backing record. For anchor the code does not: the setter writes under the key
  \<open>FLAGS.ANCHOR.VALUE\<close>, which is the key the getter reads, and \<open>setAnchor\<close> passes the
  object \<open>FLAGS.ANCHOR\<close> as the key, so what it stores the getter never reads.
\<close>

theorem setAnchor_misses_anchor_key:
  "anchor C (set_anchor C v t) = v
   \<and> anchor C (snd (setAnchor C v t)) = anchor C t
   \<and> flags (activeEffect (set_anchor C v t)) (MODULE_ID C, KeyStr (VALUE (ANCHOR (FLAGS C))))
       = Some v
   \<and> flags (activeEffect (snd (setAnchor C v t))) (MODULE_ID C, KeyObj (ANCHOR (FLAGS C)))
       = Some v"
  by (simp add: anchor_def set_anchor_def setAnchor_def getAEFlag_def setAEFlag_def getFlag_def
      setFlag_def activeEffect_def Let_def)

text \<open>
  C9. An id that is an integer above 31 is still stored and returned, with one warning on
  the console and no error: by \<open>set\<close> when the id is unoccupied or override is set, and by
  \<open>add\<close> when the counter is such an id. The entry is then in the map under that id.
\<close>

theorem beyond_MAX_still_inserted:
  assumes "of_int \<lfloor>q\<rfloor> = q" and "31 < q"
  shows "(override \<or> \<not> Map_has (Number (Num q)) (entries s) \<longrightarrow>
            set_tm (Number (Num q)) t override s =
              (Number (Num q), [console_warn (IdExceedsMaximum (Num q) (Num 31))],
               store_entry (Num q) t s))
       \<and> (nextId s = Num q \<longrightarrow>
            add t s =
              (Number (Num q), [console_warn (IdExceedsMaximum (Num q) (Num 31))],
               store_entry (Num q) t s))
       \<and> entries (store_entry (Num q) t s) = Map_set (Num q) t (entries s)
       \<and> map_of (Map_set (Num q) t (entries s)) (Num q) = Some t"
  using assms
  by (auto simp: set_tm_def add_def warn_exceeds_def MAX_TERRAINS_31 entries_store_entry
      map_of_Map_set Let_def)

theorem beyond_MAX_still_inserted_witness:
  "set_tm (Number (Num 40)) ''lava'' False \<lparr>entries = [(Num 1, ''grass'')], nextId = Num 2\<rparr>
     = (Number (Num 40), [console_warn (IdExceedsMaximum (Num 40) (Num 31))],
        \<lparr>entries = [(Num 1, ''grass''), (Num 40, ''lava'')], nextId = Num 2\<rparr>)
   \<and> add ''lava'' \<lparr>entries = [(Num 1, ''grass'')], nextId = Num 40\<rparr>
     = (Number (Num 40), [console_warn (IdExceedsMaximum (Num 40) (Num 31))],
        \<lparr>entries = [(Num 1, ''grass''), (Num 40, ''lava'')], nextId = Num 2\<rparr>)"
proof -
  have i: "of_int \<lfloor>40 :: rat\<rfloor> = (40 :: rat)"
    by simp
  have l: "(31 :: rat) < 40"
    by simp
  have st1: "store_entry (Num 40) ''lava'' \<lparr>entries = [(Num 1, ''grass'')], nextId = Num 2\<rparr>
     = \<lparr>entries = [(Num 1, ''grass''), (Num 40, ''lava'')], nextId = Num 2\<rparr>"
    by (simp add: store_entry_def findNextId_def Map_size_def Map_keys_def compareFn_def)
  have st2: "store_entry (Num 40) ''lava'' \<lparr>entries = [(Num 1, ''grass'')], nextId = Num 40\<rparr>
     = \<lparr>entries = [(Num 1, ''grass''), (Num 40, ''lava'')], nextId = Num 2\<rparr>"
    by (simp add: store_entry_def findNextId_def Map_size_def Map_keys_def compareFn_def)
  show ?thesis
    using beyond_MAX_still_inserted[OF i l, of False
        "\<lparr>entries = [(Num 1, ''grass'')], nextId = Num 2\<rparr>" "''lava''"]
      beyond_MAX_still_inserted[OF i l, of False
        "\<lparr>entries = [(Num 1, ''grass'')], nextId = Num 40\<rparr>" "''lava''"]
      st1 st2
    by (simp add: Map_has_def Map_keys_def)
qed

text \<open>
  C10. \<open>set\<close> with a null or undefined id uses the counter as the id: the call is the call
  with the counter passed as the id, and where the counter is a positive integer that is
  unoccupied (or override is set) the entry is stored under the counter and the counter's
  value is returned, which is what \<open>add\<close> does.
\<close>

theorem set_nullish_uses_nextId:
  assumes "id0 = Undefined \<or> id0 = Null"
  shows "set_tm id0 t override s = set_tm (Number (nextId s)) t override s
       \<and> (positive_integer (Number (nextId s))
            \<and> (override \<or> \<not> Map_has (Number (nextId s)) (entries s)) \<longrightarrow>
          set_tm id0 t override s =
            (Number (nextId s), warn_exceeds (nextId s), store_entry (nextId s) t s)
          \<and> set_tm id0 t override s = add t s)"
proof -
  have e: "nullish_default id0 (nextId s) = Number (nextId s)"
    using assms by auto
  have 1: "set_tm id0 t override s = set_tm (Number (nextId s)) t override s"
    by (simp add: set_tm_def e)
  have 2: "set_tm (Number (nextId s)) t override s =
            (Number (nextId s), warn_exceeds (nextId s), store_entry (nextId s) t s)"
    if "positive_integer (Number (nextId s))"
      and "override \<or> \<not> Map_has (Number (nextId s)) (entries s)"
    using that by (cases "nextId s") (auto simp: set_tm_def)
  have 3: "add t s = (Number (nextId s), warn_exceeds (nextId s), store_entry (nextId s) t s)"
    by (simp add: add_def Let_def)
  show ?thesis
    using 1 2 3 by simp
qed

theorem set_nullish_uses_nextId_witness:
  "set_tm Null ''swamp'' False \<lparr>entries = [(Num 1, ''grass'')], nextId = Num 2\<rparr>
     = (Number (Num 2), [],
        \<lparr>entries = [(Num 1, ''grass''), (Num 2, ''swamp'')], nextId = Num 3\<rparr>)
   \<and> set_tm Undefined ''swamp'' False \<lparr>entries = [(Num 1, ''grass'')], nextId = Num 2\<rparr>
     = add ''swamp'' \<lparr>entries = [(Num 1, ''grass'')], nextId = Num 2\<rparr>"
proof -
  let ?s = "\<lparr>entries = [(Num 1, ''grass'')], nextId = Num 2\<rparr>"
  have p: "positive_integer (Number (nextId ?s))
      \<and> (False \<or> \<not> Map_has (Number (nextId ?s)) (entries ?s))"
    by (simp add: Map_has_def Map_keys_def)
  have st: "store_entry (Num 2) ''swamp'' ?s
      = \<lparr>entries = [(Num 1, ''grass''), (Num 2, ''swamp'')], nextId = Num 3\<rparr>"
    by (simp add: store_entry_def findNextId_def Map_size_def Map_keys_def compareFn_def)
  have w: "warn_exceeds (Num 2) = []"
    by (simp add: warn_exceeds_def MAX_TERRAINS_def)
  from set_nullish_uses_nextId[of Null "''swamp''" False ?s] p
  have a: "set_tm Null ''swamp'' False ?s =
      (Number (nextId ?s), warn_exceeds (nextId ?s), store_entry (nextId ?s) ''swamp'' ?s)"
    by blast
  from set_nullish_uses_nextId[of Undefined "''swamp''" False ?s] p
  have b: "set_tm Undefined ''swamp'' False ?s = add ''swamp'' ?s"
    by blast
  from a st w have "set_tm Null ''swamp'' False ?s =
      (Number (Num 2), [],
       \<lparr>entries = [(Num 1, ''grass''), (Num 2, ''swamp'')], nextId = Num 3\<rparr>)"
    by simp
  with b show ?thesis
    by blast
qed

end
